theory Spec2Isabelle
  imports Complex_Main "HOL-Library.Sublist" "HOL-Library.Multiset"
begin

section \<open>Viral image extractor: data model\<close>

text \<open>
  The development embeds the decision logic of \<^verbatim>\<open>src/services/viral_image_extractor.py\<close>
  (class \<^verbatim>\<open>ViralImageExtractor\<close>). Python conventions used throughout:
  \<^item> a Python \<^verbatim>\<open>str\<close> is a \<^typ>\<open>string\<close>; one \<^typ>\<open>char\<close> stands for one code point
    below 256, so \<^const>\<open>length\<close> is Python's \<^verbatim>\<open>len\<close> on such texts;
  \<^item> a Python \<^verbatim>\<open>int\<close> is an \<^typ>\<open>int\<close>; \<^verbatim>\<open>//\<close> is \<^const>\<open>divide\<close> on \<^typ>\<open>int\<close>
    (both round towards minus infinity);
  \<^item> a Python \<^verbatim>\<open>float\<close> is idealised as a \<^typ>\<open>real\<close>: rounding is not modelled, the
    exceptions float arithmetic raises are;
  \<^item> a \<^verbatim>\<open>dict\<close> literal is an association list in insertion order, looked up with
    \<^const>\<open>map_of\<close>; a \<^verbatim>\<open>dict\<close> argument that is only read is a map;
  \<^item> an exception is a value of \<open>py_error\<close> on the left of a sum.
\<close>

datatype py_error = TypeError | OverflowError | KeyError | FileNotFoundError | ConnectError | UnidentifiedImageError

subsection \<open>Fallback metric synthesizer\<close>

text \<open>The dictionary \<^verbatim>\<open>base_multiplier\<close> of \<^verbatim>\<open>_generate_realistic_metrics\<close>.\<close>

definition base_multiplier :: "(string \<times> int) list" where
  "base_multiplier =
     [(''news'', 1000), (''commercial'', 500), (''instagram'', 2000),
      (''facebook'', 1500), (''youtube'', 10000)]"

text \<open>\<^verbatim>\<open>_generate_realistic_metrics(category, index)\<close>; \<^verbatim>\<open>dict.get(category, 1000)\<close>
  is the lookup with default.\<close>

definition generate_realistic_metrics :: "string \<Rightarrow> int \<Rightarrow> (string \<times> int) list" where
  "generate_realistic_metrics category index =
     (let multiplier = (case map_of base_multiplier category of Some b \<Rightarrow> b | None \<Rightarrow> 1000)
      in [(''likes'', multiplier + (index * 100)),
          (''comments'', (multiplier div 10) + (index * 10)),
          (''shares'', (multiplier div 20) + (index * 5)),
          (''views'', multiplier * 5 + (index * 500))])"

text \<open>The per-category base value as the specification words it.\<close>

definition spec_base_value :: "string \<Rightarrow> int" where
  "spec_base_value category =
     (if category = ''news'' then 1000
      else if category = ''commercial'' then 500
      else if category = ''instagram'' then 2000
      else if category = ''facebook'' then 1500
      else if category = ''youtube'' then 10000
      else 1000)"

subsection \<open>Virality scorer\<close>

text \<open>The dictionary \<^verbatim>\<open>weights\<close> of \<^verbatim>\<open>_calculate_image_virality_score\<close>.\<close>

definition weights :: "(string \<times> (string \<times> real) list) list" where
  "weights =
     [(''instagram'', [(''likes'', 0.3), (''comments'', 0.4), (''shares'', 0.3)]),
      (''facebook'', [(''likes'', 0.25), (''comments'', 0.35), (''shares'', 0.4)]),
      (''youtube'', [(''views'', 0.4), (''likes'', 0.3), (''comments'', 0.3)]),
      (''news'', [(''views'', 0.6), (''shares'', 0.4)]),
      (''commercial'', [(''views'', 0.5), (''likes'', 0.3), (''shares'', 0.2)])]"

text \<open>
  \<^verbatim>\<open>min(100, (metrics[metric] / 100) ** 0.5)\<close> for an integer count \<open>v\<close>.
  The true division of integers raises \<^verbatim>\<open>OverflowError\<close> when the quotient rounds to
  a double beyond the largest finite one, that is from \<open>2^1024 - 2^970\<close> on. A negative
  quotient raised to the power 0.5 is a \<^verbatim>\<open>complex\<close>, which \<^verbatim>\<open>min\<close> cannot compare with
  100: \<^verbatim>\<open>TypeError\<close>.
\<close>

definition normalized_value :: "int \<Rightarrow> py_error + real" where
  "normalized_value v =
     (if 2 ^ 1024 - 2 ^ 970 \<le> \<bar>real_of_int v / 100\<bar> then Inl OverflowError
      else if v < 0 then Inl TypeError
      else Inr (min 100 (sqrt (real_of_int v / 100))))"

text \<open>The loop \<^verbatim>\<open>for metric, weight in platform_weights.items()\<close>, carrying
  \<^verbatim>\<open>(score, total_weight)\<close>.\<close>

fun score_loop ::
  "(string \<times> real) list \<Rightarrow> (string \<rightharpoonup> int) \<Rightarrow> real \<times> real \<Rightarrow> py_error + (real \<times> real)" where
  "score_loop [] metrics acc = Inr acc"
| "score_loop ((metric, weight) # rest) metrics (score, total_weight) =
     (case metrics metric of
        None \<Rightarrow> score_loop rest metrics (score, total_weight)
      | Some v \<Rightarrow>
          (case normalized_value v of
             Inl e \<Rightarrow> Inl e
           | Inr nv \<Rightarrow> score_loop rest metrics (score + nv * weight, total_weight + weight)))"

text \<open>\<^verbatim>\<open>weights.get(platform, weights['instagram'])\<close>: the default is evaluated
  first, by a subscript that raises \<^verbatim>\<open>KeyError\<close> on a missing key.\<close>

definition platform_weights :: "string \<Rightarrow> py_error + (string \<times> real) list" where
  "platform_weights platform =
     (case map_of weights ''instagram'' of
        None \<Rightarrow> Inl KeyError
      | Some dflt \<Rightarrow> Inr (case map_of weights platform of Some w \<Rightarrow> w | None \<Rightarrow> dflt))"

text \<open>The body of the \<^verbatim>\<open>try\<close> block of \<^verbatim>\<open>_calculate_image_virality_score\<close>.\<close>

definition score_try :: "(string \<rightharpoonup> int) \<Rightarrow> string \<Rightarrow> py_error + real" where
  "score_try metrics platform =
     (case platform_weights platform of
        Inl e \<Rightarrow> Inl e
      | Inr table \<Rightarrow>
          (case score_loop table metrics (0, 0) of
             Inl e \<Rightarrow> Inl e
           | Inr (score, total_weight) \<Rightarrow>
               (let score = (if total_weight > 0 then score / total_weight else score)
                in Inr (min 100 (max 0 score)))))"

text \<open>\<^verbatim>\<open>_calculate_image_virality_score\<close>: any exception of the body is caught and
  answered with 50.0.\<close>

definition calculate_image_virality_score :: "(string \<rightharpoonup> int) \<Rightarrow> string \<Rightarrow> real" where
  "calculate_image_virality_score metrics platform =
     (case score_try metrics platform of Inl e \<Rightarrow> 50 | Inr s \<Rightarrow> s)"

subsection \<open>Strings\<close>

text \<open>\<^verbatim>\<open>str.lower\<close> on code points below 256: the letters A to Z and the
  Latin-1 capitals \<open>0xC0\<close> to \<open>0xDE\<close> (without the sign \<open>0xD7\<close>) move up by 32.\<close>

definition lower_char :: "char \<Rightarrow> char" where
  "lower_char c =
     (let n = (of_char c :: nat)
      in if (65 \<le> n \<and> n \<le> 90) \<or> (192 \<le> n \<and> n \<le> 222 \<and> n \<noteq> 215)
         then char_of (n + 32) else c)"

definition lower :: "string \<Rightarrow> string" where
  "lower s = map lower_char s"

text \<open>\<^verbatim>\<open>p in s\<close> on strings: \<open>p\<close> starts at some position of \<open>s\<close>.\<close>

fun contains :: "string \<Rightarrow> string \<Rightarrow> bool" where
  "contains [] p = (p = [])"
| "contains (c # cs) p = (prefix p (c # cs) \<or> contains cs p)"

subsection \<open>URL filter\<close>

definition invalid_patterns :: "string list" where
  "invalid_patterns =
     [''data:image'', ''base64'', ''svg'', ''icon'', ''logo'', ''avatar'', ''profile'']"

definition valid_patterns :: "string list" where
  "valid_patterns =
     [''.jpg'', ''.jpeg'', ''.png'', ''.webp'', ''scontent'', ''fbcdn'', ''instagram'', ''youtube'']"

text \<open>The loop \<^verbatim>\<open>for pattern in patterns: if pattern in url_lower: return ...\<close>;
  the value is whether the \<^verbatim>\<open>return\<close> of the body is reached.\<close>

fun pattern_loop :: "string list \<Rightarrow> string \<Rightarrow> bool" where
  "pattern_loop [] url_lower = False"
| "pattern_loop (pattern # rest) url_lower =
     (if contains url_lower pattern then True else pattern_loop rest url_lower)"

text \<open>\<^verbatim>\<open>_is_valid_image_url\<close>; \<^verbatim>\<open>not url\<close> is true of the empty string.\<close>

definition is_valid_image_url :: "string \<Rightarrow> bool" where
  "is_valid_image_url url =
     (if url = [] \<or> length url < 10 then False
      else (let url_lower = lower url
            in if pattern_loop invalid_patterns url_lower then False
               else if pattern_loop valid_patterns url_lower then True
               else False))"

subsection \<open>Hashtag extraction\<close>

text \<open>The class \<^verbatim>\<open>\w\<close> of a \<^verbatim>\<open>str\<close> pattern on code points below 256: digits, letters,
  the underscore, and the Latin-1 letters and numeric signs.\<close>

definition is_word_char :: "char \<Rightarrow> bool" where
  "is_word_char c =
     (let n = (of_char c :: nat)
      in (48 \<le> n \<and> n \<le> 57) \<or> (65 \<le> n \<and> n \<le> 90) \<or> n = 95 \<or> (97 \<le> n \<and> n \<le> 122)
         \<or> n = 170 \<or> n = 178 \<or> n = 179 \<or> n = 181 \<or> n = 185 \<or> n = 186
         \<or> (188 \<le> n \<and> n \<le> 190) \<or> (192 \<le> n \<and> n \<le> 214)
         \<or> (216 \<le> n \<and> n \<le> 246) \<or> (248 \<le> n \<and> n \<le> 255))"

text \<open>
  \<^verbatim>\<open>re.findall(r'#\w+', text)\<close>: scanning from the left, a match starts at a \<open>#\<close>
  that is followed by a word character and takes the whole run of word characters (the
  quantifier is greedy and nothing follows it in the pattern); the scan resumes after the
  match, or at the next character when there is no match.
\<close>

function findall_hashtags :: "string \<Rightarrow> string list" where
  "findall_hashtags [] = []"
| "findall_hashtags (c # cs) =
     (if c = CHR ''#'' \<and> takeWhile is_word_char cs \<noteq> []
      then (c # takeWhile is_word_char cs) # findall_hashtags (dropWhile is_word_char cs)
      else findall_hashtags cs)"
  by pat_completeness auto
termination
  by (relation "measure length") (auto simp: length_dropWhile_le less_Suc_eq_le)

text \<open>\<^verbatim>\<open>_extract_hashtags_from_text\<close>: the slice \<^verbatim>\<open>hashtags[:10]\<close>.\<close>

definition extract_hashtags_from_text :: "string \<Rightarrow> string list" where
  "extract_hashtags_from_text text = take 10 (findall_hashtags text)"

text \<open>
  Vocabulary for stating what the matches are. A hashtag token is a \<open>#\<close> followed by
  one or more word characters; a text starts a token where a \<open>#\<close> is followed by a word
  character; \<open>weave gaps tokens\<close> is the text made of the gaps and the tokens in turn,
  starting and ending with a gap.
\<close>

definition is_hashtag_token :: "string \<Rightarrow> bool" where
  "is_hashtag_token h =
     (case h of [] \<Rightarrow> False | c # w \<Rightarrow> c = CHR ''#'' \<and> w \<noteq> [] \<and> list_all is_word_char w)"

fun has_token_start :: "string \<Rightarrow> bool" where
  "has_token_start (c # d # cs) = ((c = CHR ''#'' \<and> is_word_char d) \<or> has_token_start (d # cs))"
| "has_token_start _ = False"

fun weave :: "string list \<Rightarrow> string list \<Rightarrow> string" where
  "weave (g # gs) (t # ts) = g @ t @ weave gs ts"
| "weave (g # gs) [] = g"
| "weave [] ts = []"

subsection \<open>Environment: HTTP, clock, file system\<close>

text \<open>
  A byte string is kept as what the program observes of it: its length and what
  \<^verbatim>\<open>PIL.Image.open\<close> makes of it, either the pixel size and format of the image or
  nothing when the bytes do not decode (the call raises).
\<close>

datatype blob = Blob (byte_length: int) (pil: "((int \<times> int) \<times> string) option")

text \<open>An \<^verbatim>\<open>httpx\<close> response: status, the \<^verbatim>\<open>content-type\<close> header when present, body.\<close>

record http_response =
  status_code :: int
  header_content_type :: "string option"
  content :: blob

text \<open>
  The file system: the files by path, and the paths at which \<^verbatim>\<open>open(path, 'wb')\<close>
  succeeds (it raises \<^verbatim>\<open>OSError\<close> elsewhere, for instance under a missing directory:
  \<^verbatim>\<open>setup_directories\<close> creates none for the news and commercial categories).
\<close>

record filesystem =
  files :: "string \<rightharpoonup> blob"
  writable :: "string \<Rightarrow> bool"

text \<open>
  What the program reads from outside: \<^verbatim>\<open>self.session.get(url)\<close> (an exception of the
  client is a left value), \<^verbatim>\<open>int(time.time())\<close> and \<^verbatim>\<open>datetime.now().isoformat()\<close>.
\<close>

record environment =
  http_get :: "string \<Rightarrow> py_error + http_response"
  time_time :: int
  now_isoformat :: string

subsection \<open>Formatting and paths\<close>

definition digit_char :: "nat \<Rightarrow> char" where
  "digit_char d = char_of (48 + d)"

text \<open>\<^verbatim>\<open>str(n)\<close> for an integer, as an f-string field prints it.\<close>

fun str_nat :: "nat \<Rightarrow> string" where
  "str_nat n = (if n < 10 then [digit_char n] else str_nat (n div 10) @ [digit_char (n mod 10)])"

declare str_nat.simps [simp del]

definition str_int :: "int \<Rightarrow> string" where
  "str_int i = (if i < 0 then CHR ''-'' # str_nat (nat (- i)) else str_nat (nat i))"

text \<open>The format \<^verbatim>\<open>{n:,}\<close>: a comma before every group of three digits, counted from
  the right.\<close>

fun commas_rev :: "string \<Rightarrow> string" where
  "commas_rev (a # b # c # d # ds) = a # b # c # CHR '','' # commas_rev (d # ds)"
| "commas_rev ds = ds"

definition format_thousands :: "int \<Rightarrow> string" where
  "format_thousands i =
     (if i < 0 then CHR ''-'' # rev (commas_rev (rev (str_nat (nat (- i)))))
      else rev (commas_rev (rev (str_nat (nat i)))))"

text \<open>\<^verbatim>\<open>os.path.join(a, *p)\<close> of \<^verbatim>\<open>posixpath\<close>.\<close>

definition path_join :: "string \<Rightarrow> string list \<Rightarrow> string" where
  "path_join a p =
     foldl (\<lambda>path b.
              if prefix ''/'' b then b
              else if path = [] \<or> suffix ''/'' path then path @ b
              else path @ ''/'' @ b) a p"

subsection \<open>Image files\<close>

text \<open>\<^verbatim>\<open>Image.open(path)\<close>: the file must exist and decode.\<close>

definition image_open :: "filesystem \<Rightarrow> string \<Rightarrow> py_error + ((int \<times> int) \<times> string)" where
  "image_open fs path =
     (case files fs path of
        None \<Rightarrow> Inl FileNotFoundError
      | Some b \<Rightarrow> (case pil b of None \<Rightarrow> Inl UnidentifiedImageError | Some img \<Rightarrow> Inr img))"

text \<open>\<^verbatim>\<open>os.remove(path)\<close>.\<close>

definition os_remove :: "filesystem \<Rightarrow> string \<Rightarrow> py_error + filesystem" where
  "os_remove fs path =
     (case files fs path of
        None \<Rightarrow> Inl FileNotFoundError
      | Some b \<Rightarrow> Inr (fs\<lparr>files := (files fs)(path := None)\<rparr>))"

text \<open>\<^verbatim>\<open>open(path, 'wb')\<close> followed by \<^verbatim>\<open>f.write(data)\<close>.\<close>

definition write_file :: "filesystem \<Rightarrow> string \<Rightarrow> blob \<Rightarrow> py_error + filesystem" where
  "write_file fs path data =
     (if writable fs path then Inr (fs\<lparr>files := (files fs)(path \<mapsto> data)\<rparr>)
      else Inl FileNotFoundError)"

text \<open>The dictionary \<^verbatim>\<open>_get_image_info\<close> returns.\<close>

record image_info =
  info_size :: "int \<times> int"
  info_file_size :: int
  info_format :: string

definition get_image_info :: "filesystem \<Rightarrow> string \<Rightarrow> image_info" where
  "get_image_info fs image_path =
     (case image_open fs image_path of
        Inl e \<Rightarrow> \<lparr>info_size = (0, 0), info_file_size = 0, info_format = ''unknown''\<rparr>
      | Inr (sz, fmt) \<Rightarrow>
          (case files fs image_path of
             None \<Rightarrow> \<lparr>info_size = (0, 0), info_file_size = 0, info_format = ''unknown''\<rparr>
           | Some b \<Rightarrow> \<lparr>info_size = sz, info_file_size = byte_length b, info_format = fmt\<rparr>))"

subsection \<open>Image materializer\<close>

text \<open>The extension chosen from the \<^verbatim>\<open>content-type\<close> header, and the path built from
  it, in \<^verbatim>\<open>_download_image\<close>.\<close>

definition image_extension :: "string \<Rightarrow> string" where
  "image_extension content_type =
     (if contains content_type ''jpeg'' \<or> contains content_type ''jpg'' then ''jpg''
      else if contains content_type ''png'' then ''png''
      else if contains content_type ''webp'' then ''webp''
      else ''jpg'')"

definition image_local_path :: "string \<Rightarrow> string \<Rightarrow> int \<Rightarrow> int \<Rightarrow> string \<Rightarrow> string" where
  "image_local_path images_dir platform index timestamp ext =
     (let filename = platform @ ''_viral_'' @ str_int index @ ''_'' @ str_int timestamp @ ''.'' @ ext
      in path_join images_dir [platform, filename])"

text \<open>
  \<^verbatim>\<open>_download_image\<close>, with \<^verbatim>\<open>self.images_dir\<close> as first argument. Every exception
  of the outer \<^verbatim>\<open>try\<close> ends in \<^verbatim>\<open>return None\<close>. A failing \<^verbatim>\<open>os.remove\<close> in the inner
  \<^verbatim>\<open>try\<close> is caught by the bare \<^verbatim>\<open>except\<close>, whose own \<^verbatim>\<open>os.remove\<close> then fails the
  same way and is caught by the outer handler.
\<close>

definition download_image ::
  "environment \<Rightarrow> string \<Rightarrow> filesystem \<Rightarrow> string \<Rightarrow> string \<Rightarrow> string \<Rightarrow> int
     \<Rightarrow> string option \<times> filesystem" where
  "download_image env images_dir fs img_url platform session_id index =
     (case http_get env img_url of
        Inl e \<Rightarrow> (None, fs)
      | Inr response \<Rightarrow>
          if status_code response = 200 then
            (let content_type = (case header_content_type response of Some v \<Rightarrow> v | None \<Rightarrow> []);
                 ext = image_extension content_type;
                 timestamp = time_time env;
                 local_path = image_local_path images_dir platform index timestamp ext
             in case write_file fs local_path (content response) of
                  Inl e \<Rightarrow> (None, fs)
                | Inr fs1 \<Rightarrow>
                    (case image_open fs1 local_path of
                       Inr (sz, fmt) \<Rightarrow>
                         if fst sz \<ge> 200 \<and> snd sz \<ge> 200 then (Some local_path, fs1)
                         else (case os_remove fs1 local_path of
                                 Inr fs2 \<Rightarrow> (None, fs2)
                               | Inl e \<Rightarrow> (None, fs1))
                     | Inl e \<Rightarrow>
                         (case os_remove fs1 local_path of
                            Inr fs2 \<Rightarrow> (None, fs2)
                          | Inl e' \<Rightarrow> (None, fs1))))
          else (None, fs))"

text \<open>The path at which \<^verbatim>\<open>_download_image\<close> stores the body of a response.\<close>

definition response_local_path ::
  "environment \<Rightarrow> string \<Rightarrow> http_response \<Rightarrow> string \<Rightarrow> int \<Rightarrow> string" where
  "response_local_path env images_dir response platform index =
     image_local_path images_dir platform index (time_time env)
       (image_extension (case header_content_type response of Some v \<Rightarrow> v | None \<Rightarrow> []))"

subsection \<open>Scored image record\<close>

text \<open>The dataclass \<^verbatim>\<open>ViralImage\<close>.\<close>

record ViralImage =
  platform :: string
  source_url :: string
  image_url :: string
  local_path :: string
  title :: string
  description :: string
  author :: string
  engagement_metrics :: "(string \<times> int) list"
  hashtags :: "string list"
  content_type :: string
  virality_score :: real
  extraction_timestamp :: string
  image_size :: "int \<times> int"
  file_size :: int

subsection \<open>YouTube thumbnails\<close>

text \<open>The dictionary \<^verbatim>\<open>video_data\<close> that \<^verbatim>\<open>_scrape_youtube_videos\<close> builds for a video
  (keys \<^verbatim>\<open>id\<close>, \<^verbatim>\<open>url\<close>, \<^verbatim>\<open>title\<close>, \<^verbatim>\<open>views\<close>, \<^verbatim>\<open>likes\<close>, \<^verbatim>\<open>comments\<close>,
  \<^verbatim>\<open>thumbnail_url\<close>).\<close>

record video_data =
  video_id :: string
  video_url :: string
  video_title :: string
  video_views :: int
  video_likes :: int
  video_comments :: int
  video_thumbnail_url :: string

text \<open>The entries of \<^verbatim>\<open>video_data\<close> the scorer can read: it looks up the keys of a
  weight table only, and of those the dictionary has the three integer counts.\<close>

definition video_data_metrics :: "video_data \<Rightarrow> (string \<rightharpoonup> int)" where
  "video_data_metrics video =
     map_of [(''views'', video_views video), (''likes'', video_likes video),
             (''comments'', video_comments video)]"

definition thumbnail_urls :: "string \<Rightarrow> string list" where
  "thumbnail_urls vid =
     [''https://img.youtube.com/vi/'' @ vid @ ''/maxresdefault.jpg'',
      ''https://img.youtube.com/vi/'' @ vid @ ''/hqdefault.jpg'',
      ''https://img.youtube.com/vi/'' @ vid @ ''/mqdefault.jpg'']"

text \<open>
  The loop \<^verbatim>\<open>for url in thumbnail_urls\<close> of \<^verbatim>\<open>_download_youtube_thumbnail\<close>: the first
  URL answered with status 200 whose body can be written gives the record; an exception
  inside the loop body moves on to the next URL. The stored file is read back by
  \<^verbatim>\<open>_get_image_info\<close> only; its size is not compared with anything.
\<close>

fun thumbnail_loop ::
  "environment \<Rightarrow> string \<Rightarrow> video_data \<Rightarrow> string list \<Rightarrow> filesystem
     \<Rightarrow> ViralImage option \<times> filesystem" where
  "thumbnail_loop env images_dir video [] fs = (None, fs)"
| "thumbnail_loop env images_dir video (url # urls) fs =
     (case http_get env url of
        Inl e \<Rightarrow> thumbnail_loop env images_dir video urls fs
      | Inr response \<Rightarrow>
          if status_code response = 200 then
            (let filename = ''youtube_thumbnail_'' @ video_id video @ ''_''
                              @ str_int (time_time env) @ ''.jpg'';
                 path = path_join images_dir [''youtube'', filename]
             in case write_file fs path (content response) of
                  Inl e \<Rightarrow> thumbnail_loop env images_dir video urls fs
                | Inr fs1 \<Rightarrow>
                    (let info = get_image_info fs1 path
                     in (Some \<lparr>platform = ''YouTube'',
                               source_url = video_url video,
                               image_url = url,
                               local_path = path,
                               title = video_title video,
                               description = ''Thumbnail de v'' @ [CHR 0xED] @ ''deo viral com ''
                                 @ format_thousands (video_views video)
                                 @ '' visualiza'' @ [CHR 0xE7, CHR 0xF5] @ ''es'',
                               author = ''Canal YouTube'',
                               engagement_metrics =
                                 [(''views'', video_views video), (''likes'', video_likes video),
                                  (''comments'', video_comments video),
                                  (''shares'', video_views video div 50)],
                               hashtags = extract_hashtags_from_text (video_title video),
                               content_type = ''thumbnail'',
                               virality_score =
                                 calculate_image_virality_score (video_data_metrics video) ''youtube'',
                               extraction_timestamp = now_isoformat env,
                               image_size = info_size info,
                               file_size = info_file_size info\<rparr>, fs1)))
          else thumbnail_loop env images_dir video urls fs)"

definition download_youtube_thumbnail ::
  "environment \<Rightarrow> string \<Rightarrow> filesystem \<Rightarrow> video_data \<Rightarrow> string
     \<Rightarrow> ViralImage option \<times> filesystem" where
  "download_youtube_thumbnail env images_dir fs video session_id =
     thumbnail_loop env images_dir video (thumbnail_urls (video_id video)) fs"

text \<open>The loop \<^verbatim>\<open>for video in videos\<close> of \<^verbatim>\<open>extract_youtube_thumbnails\<close>.\<close>

fun thumbnails_of_videos ::
  "environment \<Rightarrow> string \<Rightarrow> string \<Rightarrow> video_data list \<Rightarrow> filesystem
     \<Rightarrow> ViralImage list \<times> filesystem" where
  "thumbnails_of_videos env images_dir session_id [] fs = ([], fs)"
| "thumbnails_of_videos env images_dir session_id (video # videos) fs =
     (case download_youtube_thumbnail env images_dir fs video session_id of
        (None, fs1) \<Rightarrow> thumbnails_of_videos env images_dir session_id videos fs1
      | (Some thumbnail_image, fs1) \<Rightarrow>
          (case thumbnails_of_videos env images_dir session_id videos fs1 of
             (images, fs2) \<Rightarrow> (thumbnail_image # images, fs2)))"

text \<open>\<^verbatim>\<open>extract_youtube_thumbnails\<close> with its default limit 6. The browser-driven
  \<^verbatim>\<open>_scrape_youtube_videos(query, limit)\<close> is the parameter \<open>scrape_youtube_videos\<close>.\<close>

definition extract_youtube_thumbnails ::
  "environment \<Rightarrow> string \<Rightarrow> (string \<Rightarrow> int \<Rightarrow> video_data list) \<Rightarrow> string \<Rightarrow> string
     \<Rightarrow> filesystem \<Rightarrow> ViralImage list \<times> filesystem" where
  "extract_youtube_thumbnails env images_dir scrape_youtube_videos query session_id fs =
     thumbnails_of_videos env images_dir session_id (scrape_youtube_videos query 6) fs"

subsection \<open>Aggregation orchestrator\<close>

text \<open>
  The collectors drive a browser and the network; the orchestrator sees them as
  transformers of the outside world \<open>'w\<close> that return the records they built:
  \<^verbatim>\<open>extract_instagram_images\<close>, \<^verbatim>\<open>extract_facebook_images\<close> and
  \<^verbatim>\<open>extract_youtube_thumbnails\<close> (query, session), \<^verbatim>\<open>_extract_news_images\<close> and
  \<^verbatim>\<open>_extract_commercial_images\<close> (query, session, limit), and \<^verbatim>\<open>save_images_metadata\<close>
  (images, session). Each of them catches its own exceptions.
\<close>

record 'w collectors =
  instagram_collector :: "string \<Rightarrow> string \<Rightarrow> 'w \<Rightarrow> ViralImage list \<times> 'w"
  facebook_collector :: "string \<Rightarrow> string \<Rightarrow> 'w \<Rightarrow> ViralImage list \<times> 'w"
  youtube_collector :: "string \<Rightarrow> string \<Rightarrow> 'w \<Rightarrow> ViralImage list \<times> 'w"
  news_collector :: "string \<Rightarrow> string \<Rightarrow> int \<Rightarrow> 'w \<Rightarrow> ViralImage list \<times> 'w"
  commercial_collector :: "string \<Rightarrow> string \<Rightarrow> int \<Rightarrow> 'w \<Rightarrow> ViralImage list \<times> 'w"
  metadata_writer :: "ViralImage list \<Rightarrow> string \<Rightarrow> 'w \<Rightarrow> 'w"

text \<open>The attributes of \<^verbatim>\<open>ViralImageExtractor\<close> that the orchestrator reads and writes,
  and their values after \<^verbatim>\<open>__init__\<close>.\<close>

record extractor =
  extracted_images :: "ViralImage list"
  min_images_target :: nat

definition new_extractor :: extractor where
  "new_extractor = \<lparr>extracted_images = [], min_images_target = 20\<rparr>"

text \<open>\<^verbatim>\<open>extract_additional_viral_content\<close>.\<close>

definition extract_additional_viral_content ::
  "'w collectors \<Rightarrow> string \<Rightarrow> string \<Rightarrow> 'w \<Rightarrow> ViralImage list \<times> 'w" where
  "extract_additional_viral_content cs query session_id w =
     (case news_collector cs query session_id 8 w of
        (news_images, w1) \<Rightarrow>
          (case commercial_collector cs query session_id 6 w1 of
             (commercial_images, w2) \<Rightarrow> (news_images @ commercial_images, w2)))"

text \<open>\<^verbatim>\<open>extract_viral_images\<close>, collection: the three primary sources, then the
  fallback gate.\<close>

definition collect_all_images ::
  "'w collectors \<Rightarrow> extractor \<Rightarrow> string \<Rightarrow> string \<Rightarrow> 'w \<Rightarrow> ViralImage list \<times> 'w" where
  "collect_all_images cs self query session_id w =
     (case instagram_collector cs query session_id w of
        (instagram_images, w1) \<Rightarrow>
     (case facebook_collector cs query session_id w1 of
        (facebook_images, w2) \<Rightarrow>
     (case youtube_collector cs query session_id w2 of
        (youtube_images, w3) \<Rightarrow>
       (let all_images = instagram_images @ facebook_images @ youtube_images
        in if length all_images < min_images_target self
           then (case extract_additional_viral_content cs query session_id w3 of
                   (additional_images, w4) \<Rightarrow> (all_images @ additional_images, w4))
           else (all_images, w3)))))"

text \<open>
  \<^verbatim>\<open>all_images.sort(key=lambda x: x.virality_score, reverse=True)\<close>. The list sort of
  CPython is stable; with \<^verbatim>\<open>reverse=True\<close> it reverses the list, sorts it in ascending
  order of the key, and reverses the result.
\<close>

definition sort_by_virality_score :: "ViralImage list \<Rightarrow> ViralImage list" where
  "sort_by_virality_score all_images = rev (sort_key virality_score (rev all_images))"

text \<open>\<^verbatim>\<open>extract_viral_images\<close>, truncation: the slice \<^verbatim>\<open>all_images[:self.min_images_target]\<close>
  when the target is reached, the whole list (and a warning in the log) otherwise.\<close>

definition truncate_to_target :: "extractor \<Rightarrow> ViralImage list \<Rightarrow> ViralImage list" where
  "truncate_to_target self all_images =
     (if length all_images \<ge> min_images_target self
      then take (min_images_target self) all_images
      else all_images)"

text \<open>\<^verbatim>\<open>extract_viral_images\<close>: the returned list, the extractor and the world after.\<close>

definition extract_viral_images ::
  "'w collectors \<Rightarrow> extractor \<Rightarrow> string \<Rightarrow> string \<Rightarrow> 'w
     \<Rightarrow> ViralImage list \<times> extractor \<times> 'w" where
  "extract_viral_images cs self query session_id w =
     (case collect_all_images cs self query session_id w of
        (all_images, w1) \<Rightarrow>
          (let ranked = sort_by_virality_score all_images;
               final_images = truncate_to_target self ranked
           in (final_images,
               self\<lparr>extracted_images := final_images\<rparr>,
               metadata_writer cs final_images session_id w1)))"

text \<open>The dictionary \<^verbatim>\<open>get_extracted_images_summary\<close> returns; the key
  \<^verbatim>\<open>images_paths\<close> is absent when there is no image.\<close>

record summary =
  summary_total :: nat
  summary_by_platform :: "(string \<times> nat) list"
  summary_average_score :: real
  summary_status :: string
  summary_images_paths :: "string list option"

text \<open>The counting loop: a platform not yet in the dictionary enters with 0 at the end,
  then its count grows by one.\<close>

fun count_by_platform :: "(string \<times> nat) list \<Rightarrow> ViralImage list \<Rightarrow> (string \<times> nat) list" where
  "count_by_platform d [] = d"
| "count_by_platform d (img # images) =
     (let d1 = (if map_of d (platform img) = None then d @ [(platform img, 0)] else d);
          d2 = map (\<lambda>(k, v). if k = platform img then (k, v + 1) else (k, v)) d1
      in count_by_platform d2 images)"

definition get_extracted_images_summary :: "extractor \<Rightarrow> summary" where
  "get_extracted_images_summary self =
     (if extracted_images self = [] then
        \<lparr>summary_total = 0, summary_by_platform = [], summary_average_score = 0,
         summary_status = ''no_images'', summary_images_paths = None\<rparr>
      else
        \<lparr>summary_total = length (extracted_images self),
         summary_by_platform = count_by_platform [] (extracted_images self),
         summary_average_score =
           sum_list (map virality_score (extracted_images self))
             / real (length (extracted_images self)),
         summary_status =
           (if length (extracted_images self) \<ge> min_images_target self then ''success''
            else ''partial''),
         summary_images_paths = Some (map local_path (extracted_images self))\<rparr>)"

subsection \<open>Sample inputs and test doubles\<close>

text \<open>A record with a given title and score, as a collector would deliver it.\<close>

definition sample_image :: "string \<Rightarrow> real \<Rightarrow> ViralImage" where
  "sample_image name score =
     \<lparr>platform = ''Instagram'',
      source_url = ''https://www.instagram.com/p/'' @ name,
      image_url = ''https://scontent.example/'' @ name @ ''.jpg'',
      local_path = ''viral_images/instagram/'' @ name @ ''.jpg'',
      title = name, description = [], author = ''@user_0'',
      engagement_metrics = [], hashtags = [], content_type = ''image'',
      virality_score = score, extraction_timestamp = ''2024-01-01T00:00:00'',
      image_size = (640, 640), file_size = 1000\<rparr>"

text \<open>Collectors that return canned lists and record each call in the world, which is
  the list of calls so far.\<close>

datatype call =
  ExtractInstagram | ExtractFacebook | ExtractYoutube
  | ExtractNews int | ExtractCommercial int | SaveMetadata nat

definition canned_collectors ::
  "ViralImage list \<Rightarrow> ViralImage list \<Rightarrow> ViralImage list \<Rightarrow> ViralImage list \<Rightarrow> ViralImage list
     \<Rightarrow> call list collectors" where
  "canned_collectors i f y n c =
     \<lparr>instagram_collector = (\<lambda>query session_id w. (i, w @ [ExtractInstagram])),
      facebook_collector = (\<lambda>query session_id w. (f, w @ [ExtractFacebook])),
      youtube_collector = (\<lambda>query session_id w. (y, w @ [ExtractYoutube])),
      news_collector = (\<lambda>query session_id limit w. (n, w @ [ExtractNews limit])),
      commercial_collector = (\<lambda>query session_id limit w. (c, w @ [ExtractCommercial limit])),
      metadata_writer = (\<lambda>images session_id w. w @ [SaveMetadata (length images)])\<rparr>"

text \<open>A file system that is empty and accepts every write.\<close>

definition empty_fs :: filesystem where
  "empty_fs = \<lparr>files = Map.empty, writable = (\<lambda>path. True)\<rparr>"

text \<open>A server that answers every request with a PNG image of 100 by 100 pixels.\<close>

definition small_image_env :: environment where
  "small_image_env =
     \<lparr>http_get = (\<lambda>url. Inr \<lparr>status_code = 200, header_content_type = Some ''image/png'',
                               content = Blob 3000 (Some ((100, 100), ''PNG''))\<rparr>),
      time_time = 17, now_isoformat = ''2024-01-01T00:00:00''\<rparr>"

text \<open>
  A video whose only available thumbnail is the medium-quality one: the server answers
  the \<^verbatim>\<open>mqdefault.jpg\<close> address with a JPEG of 320 by 180 pixels (the size YouTube
  serves there) and every other address with status 404.
\<close>

definition sample_video :: video_data where
  "sample_video =
     \<lparr>video_id = ''abc123XYZ_-'',
      video_url = ''https://www.youtube.com/watch?v=abc123XYZ_-'',
      video_title = ''Demo #viral'',
      video_views = 50000, video_likes = 2500, video_comments = 500,
      video_thumbnail_url = ''https://img.youtube.com/vi/abc123XYZ_-/maxresdefault.jpg''\<rparr>"

definition mq_only_env :: environment where
  "mq_only_env =
     \<lparr>http_get =
        (\<lambda>url. if url = ''https://img.youtube.com/vi/abc123XYZ_-/mqdefault.jpg''
               then Inr \<lparr>status_code = 200, header_content_type = Some ''image/jpeg'',
                         content = Blob 9000 (Some ((320, 180), ''JPEG''))\<rparr>
               else Inr \<lparr>status_code = 404, header_content_type = Some ''image/jpeg'',
                         content = Blob 1000 (Some ((120, 90), ''JPEG''))\<rparr>),
      time_time = 17, now_isoformat = ''2024-01-01T00:00:00''\<rparr>"

text \<open>Collectors of a session in which only YouTube delivers: its collector is
  \<open>extract_youtube_thumbnails\<close> on a search that finds the sample video; the world is
  the file system.\<close>

definition youtube_only_collectors :: "environment \<Rightarrow> filesystem collectors" where
  "youtube_only_collectors env =
     \<lparr>instagram_collector = (\<lambda>query session_id fs. ([], fs)),
      facebook_collector = (\<lambda>query session_id fs. ([], fs)),
      youtube_collector =
        extract_youtube_thumbnails env ''viral_images'' (\<lambda>query limit. [sample_video]),
      news_collector = (\<lambda>query session_id limit fs. ([], fs)),
      commercial_collector = (\<lambda>query session_id limit fs. ([], fs)),
      metadata_writer = (\<lambda>images session_id fs. fs)\<rparr>"

text \<open>Three sessions of canned collectors: the primary sources deliver 19 records and
  the fallback 6 more; the primary sources deliver 20; a single source delivers 2.\<close>

definition surplus_collectors :: "call list collectors" where
  "surplus_collectors =
     canned_collectors (replicate 8 (sample_image ''i'' 10)) (replicate 6 (sample_image ''f'' 90))
       (replicate 5 (sample_image ''y'' 30)) (replicate 4 (sample_image ''n'' 50))
       (replicate 2 (sample_image ''c'' 70))"

definition full_primary_collectors :: "call list collectors" where
  "full_primary_collectors =
     canned_collectors (replicate 8 (sample_image ''i'' 10)) (replicate 6 (sample_image ''f'' 90))
       (replicate 6 (sample_image ''y'' 30)) [sample_image ''n'' 50] [sample_image ''c'' 70]"

definition scarce_collectors :: "call list collectors" where
  "scarce_collectors =
     canned_collectors [sample_image ''a'' 10, sample_image ''b'' 90] [] [] [] []"

section \<open>Properties\<close>

subsection \<open>Scorer\<close>

lemma score_try_range:
  "score_try metrics category = Inr s \<Longrightarrow> 0 \<le> s \<and> s \<le> 100"
  by (auto simp: score_try_def Let_def split: option.splits sum.splits prod.splits if_splits)

text \<open>
  Claim C1. For every engagement-metrics mapping and every category string, the virality
  scorer returns a value in the closed interval from 0 to 100, whatever the magnitude of
  the counts: either the body ends in the final clamp, or it raises and the default 50
  is returned.
\<close>

theorem virality_score_in_range:
  "0 \<le> calculate_image_virality_score metrics category
   \<and> calculate_image_virality_score metrics category \<le> 100"
proof (cases "score_try metrics category")
  case (Inl e)
  then show ?thesis by (simp add: calculate_image_virality_score_def)
next
  case (Inr s)
  with score_try_range [OF Inr] show ?thesis
    by (simp add: calculate_image_virality_score_def)
qed

lemma score_loop_absent:
  "\<forall>metric \<in> fst ` set table. metrics metric = None \<Longrightarrow> score_loop table metrics acc = Inr acc"
  by (induction table metrics acc rule: score_loop.induct) auto

text \<open>
  Claim C2, as amended. When no metric of the category's weight table is present in the
  engagement-metrics mapping (in particular when the mapping is empty), the scorer does
  not raise and returns 0: the accumulated weight is 0, the guard
  \<^verbatim>\<open>if total_weight > 0\<close> skips the division and the clamp of 0 is 0. The default
  50 is returned only when the body raises.
\<close>

theorem empty_metrics_score_zero:
  "\<exists>table. platform_weights category = Inr table
     \<and> ((\<forall>metric \<in> fst ` set table. metrics metric = None)
          \<longrightarrow> score_try metrics category = Inr 0
              \<and> calculate_image_virality_score metrics category = 0)"
proof -
  obtain table where t: "platform_weights category = Inr table"
    by (auto simp: platform_weights_def weights_def split: option.splits)
  have "score_try metrics category = Inr 0"
    if "\<forall>metric \<in> fst ` set table. metrics metric = None"
    using score_loop_absent [OF that, of "(0, 0)"] t by (simp add: score_try_def)
  then show ?thesis
    using t by (auto simp: calculate_image_virality_score_def)
qed

theorem empty_metrics_score_zero_witness:
  "platform_weights ''news'' = Inr [(''views'', 0.6), (''shares'', 0.4)]
   \<and> map_of [(''reactions'', 900 :: int)] ''views'' = None
   \<and> map_of [(''reactions'', 900 :: int)] ''shares'' = None
   \<and> score_try (map_of [(''reactions'', 900)]) ''news'' = Inr 0
   \<and> calculate_image_virality_score (map_of [(''reactions'', 900)]) ''news'' = 0"
proof -
  have t: "platform_weights ''news'' = Inr [(''views'', 0.6), (''shares'', 0.4)]"
    by (simp add: platform_weights_def weights_def)
  have h: "\<forall>metric \<in> fst ` set [(''views'', 0.6 :: real), (''shares'', 0.4)].
             map_of [(''reactions'', 900 :: int)] metric = None"
    by simp
  from empty_metrics_score_zero [of "''news''" "map_of [(''reactions'', 900)]"] t h
  show ?thesis by auto
qed

text \<open>Claim C2, as stated, fails: on the empty mapping the body returns 0 without
  raising, so the result is 0 and not the default 50.\<close>

theorem empty_metrics_not_default:
  "score_try (map_of []) ''instagram'' = Inr 0
   \<and> calculate_image_virality_score (map_of []) ''instagram'' \<noteq> 50"
  by (simp add: calculate_image_virality_score_def score_try_def platform_weights_def weights_def)

subsection \<open>Fallback metric synthesizer\<close>

text \<open>
  Claim C9. The synthesizer is a function of the category and the ordinal index alone:
  its value is the per-category base (news 1000, commercial 500, instagram 2000,
  facebook 1500, youtube 10000, otherwise 1000) plus a linear term in the index, with
  the same metric names at every index, and every count grows strictly with the index.
\<close>

theorem generate_realistic_metrics_linear:
  "generate_realistic_metrics category index =
     [(''likes'', spec_base_value category + 100 * index),
      (''comments'', spec_base_value category div 10 + 10 * index),
      (''shares'', spec_base_value category div 20 + 5 * index),
      (''views'', 5 * spec_base_value category + 500 * index)]
   \<and> map fst (generate_realistic_metrics category index') = map fst (generate_realistic_metrics category index)
   \<and> (index < index' \<longrightarrow>
        list_all2 (<) (map snd (generate_realistic_metrics category index))
                      (map snd (generate_realistic_metrics category index')))"
  by (simp add: generate_realistic_metrics_def spec_base_value_def base_multiplier_def Let_def)

theorem generate_realistic_metrics_linear_witness:
  "(0::int) < 1
   \<and> generate_realistic_metrics ''youtube'' 0 =
       [(''likes'', 10000), (''comments'', 1000), (''shares'', 500), (''views'', 50000)]
   \<and> list_all2 (<) (map snd (generate_realistic_metrics ''youtube'' 0))
                    (map snd (generate_realistic_metrics ''youtube'' 1))"
proof -
  note inst = generate_realistic_metrics_linear [of "''youtube''" 0 1]
  have h: "(0::int) < 1" by simp
  have a: "generate_realistic_metrics ''youtube'' 0 =
       [(''likes'', 10000), (''comments'', 1000), (''shares'', 500), (''views'', 50000)]"
    using inst [THEN conjunct1] by (simp add: spec_base_value_def)
  have b: "list_all2 (<) (map snd (generate_realistic_metrics ''youtube'' 0))
                    (map snd (generate_realistic_metrics ''youtube'' 1))"
    using inst [THEN conjunct2, THEN conjunct2] h by blast
  from h a b show ?thesis by blast
qed

subsection \<open>URL filter\<close>

lemma contains_iff: "contains s p \<longleftrightarrow> (\<exists>pre post. s = pre @ p @ post)"
proof -
  have "contains s p = sublist p s"
    by (induction s) (auto simp: sublist_Cons_right)
  then show ?thesis by (simp add: sublist_def)
qed

lemma pattern_loop_iff:
  "pattern_loop ps s \<longleftrightarrow> (\<exists>p \<in> set ps. \<exists>pre post. s = pre @ p @ post)"
  by (induction ps) (simp_all add: contains_iff)

text \<open>
  Claim C10. The URL filter answers False for every URL that is empty, shorter than 10
  characters, or whose lower-cased form contains one of the seven excluded patterns;
  otherwise it answers True exactly when the lower-cased URL contains one of the eight
  accepted patterns. Containment is that of the source, on the lower-cased URL, for both
  lists.
\<close>

theorem is_valid_image_url_spec:
  "is_valid_image_url url =
     (if url = [] \<or> length url < 10
         \<or> (\<exists>p \<in> {''data:image'', ''base64'', ''svg'', ''icon'', ''logo'', ''avatar'', ''profile''}.
               \<exists>pre post. lower url = pre @ p @ post)
      then False
      else (\<exists>p \<in> {''.jpg'', ''.jpeg'', ''.png'', ''.webp'', ''scontent'', ''fbcdn'', ''instagram'', ''youtube''}.
               \<exists>pre post. lower url = pre @ p @ post))"
  unfolding is_valid_image_url_def Let_def pattern_loop_iff invalid_patterns_def valid_patterns_def
  by simp

theorem is_valid_image_url_spec_witness:
  "is_valid_image_url ''https://cdn.example.com/Photo.JPG''
   \<and> \<not> (''https://cdn.example.com/Photo.JPG'' = [] \<or> length ''https://cdn.example.com/Photo.JPG'' < 10
         \<or> (\<exists>p \<in> {''data:image'', ''base64'', ''svg'', ''icon'', ''logo'', ''avatar'', ''profile''}.
               \<exists>pre post. lower ''https://cdn.example.com/Photo.JPG'' = pre @ p @ post))
   \<and> (\<exists>p \<in> {''.jpg'', ''.jpeg'', ''.png'', ''.webp'', ''scontent'', ''fbcdn'', ''instagram'', ''youtube''}.
               \<exists>pre post. lower ''https://cdn.example.com/Photo.JPG'' = pre @ p @ post)"
proof -
  have v: "is_valid_image_url ''https://cdn.example.com/Photo.JPG''"
    by code_simp
  from v is_valid_image_url_spec [of "''https://cdn.example.com/Photo.JPG''"]
  show ?thesis by (metis (no_types, lifting))
qed

subsection \<open>Hashtag extraction\<close>

lemma findall_hashtags_tokens:
  "h \<in> set (findall_hashtags text) \<Longrightarrow> is_hashtag_token h"
proof (induction "text" rule: findall_hashtags.induct)
  case 1
  then show ?case by simp
next
  case (2 c cs)
  then show ?case
    by (auto simp: is_hashtag_token_def list_all_iff split: if_splits dest: set_takeWhileD)
qed

lemma has_token_start_Cons:
  "has_token_start (c # g) \<longleftrightarrow> g \<noteq> [] \<and> ((c = CHR ''#'' \<and> is_word_char (hd g)) \<or> has_token_start g)"
  by (cases g) simp_all

lemma prefix_hd_weave: "prefix g (weave (g # gs) ts)"
  by (cases ts) simp_all

lemma hd_dropWhile_not: "dropWhile P xs \<noteq> [] \<Longrightarrow> \<not> P (hd (dropWhile P xs))"
  using hd_dropWhile by blast

lemma findall_hashtags_weave:
  "\<exists>gaps. length gaps = Suc (length (findall_hashtags text))
     \<and> weave gaps (findall_hashtags text) = text
     \<and> (\<forall>g \<in> set gaps. \<not> has_token_start g)
     \<and> (\<forall>g \<in> set (tl gaps). g = [] \<or> \<not> is_word_char (hd g))"
proof (induction "text" rule: findall_hashtags.induct)
  case 1
  have "length [[]::string] = Suc (length (findall_hashtags []))
     \<and> weave [[]] (findall_hashtags []) = []
     \<and> (\<forall>g \<in> set [[]::string]. \<not> has_token_start g)
     \<and> (\<forall>g \<in> set (tl [[]::string]). g = [] \<or> \<not> is_word_char (hd g))"
    by simp
  then show ?case by blast
next
  case (2 c cs)
  show ?case
  proof (cases "c = CHR ''#'' \<and> takeWhile is_word_char cs \<noteq> []")
    case True
    let ?rest = "dropWhile is_word_char cs"
    from 2(1) [OF True] obtain gaps where g:
      "length gaps = Suc (length (findall_hashtags ?rest))"
      "weave gaps (findall_hashtags ?rest) = ?rest"
      "\<forall>g \<in> set gaps. \<not> has_token_start g"
      "\<forall>g \<in> set (tl gaps). g = [] \<or> \<not> is_word_char (hd g)"
      by blast
    from g(1) obtain g0 gs where gaps: "gaps = g0 # gs" by (cases gaps) auto
    have pre: "prefix g0 ?rest"
      using prefix_hd_weave [of g0 gs "findall_hashtags ?rest"] g(2) gaps by simp
    have first: "g0 = [] \<or> \<not> is_word_char (hd g0)"
    proof (cases g0)
      case Nil
      then show ?thesis by simp
    next
      case (Cons a as)
      with pre obtain zs where r: "?rest = a # as @ zs"
        by (auto simp: prefix_def)
      then have ne: "?rest \<noteq> []" by simp
      from hd_dropWhile_not [OF ne] r Cons show ?thesis by simp
    qed
    let ?gaps = "[] # gaps"
    have "length ?gaps = Suc (length (findall_hashtags (c # cs)))"
      using True g(1) by simp
    moreover have "weave ?gaps (findall_hashtags (c # cs)) = c # cs"
      using True g(2) by simp
    moreover have "\<forall>g \<in> set ?gaps. \<not> has_token_start g"
      using g(3) by simp
    moreover have "\<forall>g \<in> set (tl ?gaps). g = [] \<or> \<not> is_word_char (hd g)"
      using g(4) first gaps by auto
    ultimately show ?thesis by blast
  next
    case False
    from 2(2) [OF False] obtain gaps where g:
      "length gaps = Suc (length (findall_hashtags cs))"
      "weave gaps (findall_hashtags cs) = cs"
      "\<forall>g \<in> set gaps. \<not> has_token_start g"
      "\<forall>g \<in> set (tl gaps). g = [] \<or> \<not> is_word_char (hd g)"
      by blast
    from g(1) obtain g0 gs where gaps: "gaps = g0 # gs" by (cases gaps) auto
    have pre: "prefix g0 cs"
      using prefix_hd_weave [of g0 gs "findall_hashtags cs"] g(2) gaps by simp
    have nostart: "\<not> has_token_start (c # g0)"
    proof (cases g0)
      case Nil
      then show ?thesis by simp
    next
      case (Cons a as)
      with pre obtain cs' where cs: "cs = a # cs'" by (auto simp: prefix_def)
      from False cs have "c \<noteq> CHR ''#'' \<or> \<not> is_word_char a" by auto
      moreover from g(3) gaps have "\<not> has_token_start g0" by simp
      ultimately show ?thesis using Cons by (simp add: has_token_start_Cons)
    qed
    let ?gaps = "(c # g0) # gs"
    have "length ?gaps = Suc (length (findall_hashtags (c # cs)))"
      using False g(1) gaps by auto
    moreover have "weave ?gaps (findall_hashtags (c # cs)) = c # cs"
    proof (cases "findall_hashtags cs")
      case Nil
      with False g(2) gaps show ?thesis by auto
    next
      case (Cons t ts)
      with False g(2) gaps show ?thesis by auto
    qed
    moreover have "\<forall>g \<in> set ?gaps. \<not> has_token_start g"
      using g(3) gaps nostart by simp
    moreover have "\<forall>g \<in> set (tl ?gaps). g = [] \<or> \<not> is_word_char (hd g)"
      using g(4) gaps by simp
    ultimately show ?thesis by blast
  qed
qed

text \<open>
  Claim C7, as amended. For every input text, hashtag extraction returns the first 10
  hashtag tokens of the text in order of occurrence, duplicates kept: every match is a
  \<open>#\<close> followed by one or more word characters; the text is the matches in their order
  with gaps between them, before the first and after the last; no gap holds a \<open>#\<close>
  followed by a word character (no token is missed); no gap after a match starts with a
  word character (each match is the whole run). The text
  \<open>Confira #promo #Brasil2024 agora!\<close> yields \<open>#promo\<close> and \<open>#Brasil2024\<close>.
\<close>

theorem extract_hashtags_from_text_tokens:
  "length (extract_hashtags_from_text text) \<le> 10
   \<and> extract_hashtags_from_text text = take 10 (findall_hashtags text)
   \<and> (\<forall>h \<in> set (findall_hashtags text). is_hashtag_token h)
   \<and> (\<exists>gaps. length gaps = Suc (length (findall_hashtags text))
         \<and> weave gaps (findall_hashtags text) = text
         \<and> (\<forall>g \<in> set gaps. \<not> has_token_start g)
         \<and> (\<forall>g \<in> set (tl gaps). g = [] \<or> \<not> is_word_char (hd g)))
   \<and> extract_hashtags_from_text ''Confira #promo #Brasil2024 agora!'' = [''#promo'', ''#Brasil2024'']"
proof -
  have ex: "extract_hashtags_from_text ''Confira #promo #Brasil2024 agora!'' = [''#promo'', ''#Brasil2024'']"
    by code_simp
  show ?thesis
    using findall_hashtags_weave [of "text"] findall_hashtags_tokens [of _ "text"] ex
    by (simp add: extract_hashtags_from_text_def)
qed

text \<open>Claim C7, as stated, fails: a hashtag that occurs twice in the text is returned
  twice, so duplicates are not removed.\<close>

theorem extract_hashtags_keeps_duplicates:
  "extract_hashtags_from_text ''#a #b #a'' = [''#a'', ''#b'', ''#a'']
   \<and> \<not> distinct (extract_hashtags_from_text ''#a #b #a'')"
proof -
  have "extract_hashtags_from_text ''#a #b #a'' = [''#a'', ''#b'', ''#a'']"
    by code_simp
  then show ?thesis by simp
qed

theorem extract_hashtags_from_text_tokens_witness:
  "findall_hashtags ''x #a#b c'' = [''#a'', ''#b'']
   \<and> is_hashtag_token ''#a'' \<and> is_hashtag_token ''#b''
   \<and> (\<exists>gaps. length gaps = Suc (length [''#a'', ''#b''])
         \<and> weave gaps [''#a'', ''#b''] = ''x #a#b c''
         \<and> (\<forall>g \<in> set gaps. \<not> has_token_start g)
         \<and> (\<forall>g \<in> set (tl gaps). g = [] \<or> \<not> is_word_char (hd g)))"
proof -
  have f: "findall_hashtags ''x #a#b c'' = [''#a'', ''#b'']"
    by code_simp
  from extract_hashtags_from_text_tokens [of "''x #a#b c''"] f
  show ?thesis by simp
qed

subsection \<open>Image materializer\<close>

lemma download_image_unwritable:
  assumes "http_get env img_url = Inr response" and "status_code response = 200"
    and "\<not> writable fs (response_local_path env images_dir response category index)"
  shows "download_image env images_dir fs img_url category session_id index = (None, fs)"
  using assms
  by (simp add: download_image_def Let_def write_file_def response_local_path_def)

lemma download_image_written:
  assumes "http_get env img_url = Inr response" and "status_code response = 200"
    and "writable fs (response_local_path env images_dir response category index)"
  shows "download_image env images_dir fs img_url category session_id index =
     (let p = response_local_path env images_dir response category index;
          fs1 = fs\<lparr>files := (files fs)(p \<mapsto> content response)\<rparr>
      in case pil (content response) of
           None \<Rightarrow> (None, fs1\<lparr>files := (files fs1)(p := None)\<rparr>)
         | Some (sz, fmt) \<Rightarrow>
             if fst sz \<ge> 200 \<and> snd sz \<ge> 200 then (Some p, fs1)
             else (None, fs1\<lparr>files := (files fs1)(p := None)\<rparr>))"
  using assms
  by (simp add: download_image_def Let_def write_file_def response_local_path_def
        image_open_def os_remove_def split: option.split prod.split)

text \<open>
  Claim C8. When the downloader receives a response with status 200 whose body does not
  decode as an image, or decodes to a width or height below 200, it returns no path; the
  file it stored for the response is deleted again, so no file is left at that path, and
  no other file is touched. (Where the body could not be written at all, nothing was
  stored and the file system is as before.)
\<close>

theorem download_image_rejects:
  assumes "http_get env img_url = Inr response"
    and "status_code response = 200"
    and "pil (content response) = None
         \<or> (\<exists>w h fmt. pil (content response) = Some ((w, h), fmt) \<and> (w < 200 \<or> h < 200))"
  shows "fst (download_image env images_dir fs img_url category session_id index) = None
     \<and> files (snd (download_image env images_dir fs img_url category session_id index))
          (response_local_path env images_dir response category index)
        = (if writable fs (response_local_path env images_dir response category index) then None
           else files fs (response_local_path env images_dir response category index))
     \<and> (\<forall>q. q \<noteq> response_local_path env images_dir response category index \<longrightarrow>
           files (snd (download_image env images_dir fs img_url category session_id index)) q = files fs q)"
proof (cases "writable fs (response_local_path env images_dir response category index)")
  case False
  from download_image_unwritable [OF assms(1,2) False] False show ?thesis by simp
next
  case True
  from assms(3) download_image_written [OF assms(1,2) True, of session_id] True
  show ?thesis
    by (auto simp: Let_def)
qed

theorem download_image_rejects_witness:
  "http_get small_image_env ''https://scontent.example/p.png''
     = Inr \<lparr>status_code = 200, header_content_type = Some ''image/png'',
            content = Blob 3000 (Some ((100, 100), ''PNG''))\<rparr>
   \<and> response_local_path small_image_env ''viral_images''
        \<lparr>status_code = 200, header_content_type = Some ''image/png'',
         content = Blob 3000 (Some ((100, 100), ''PNG''))\<rparr> ''instagram'' 3
       = ''viral_images/instagram/instagram_viral_3_17.png''
   \<and> fst (download_image small_image_env ''viral_images'' empty_fs
            ''https://scontent.example/p.png'' ''instagram'' ''s1'' 3) = None
   \<and> files (snd (download_image small_image_env ''viral_images'' empty_fs
            ''https://scontent.example/p.png'' ''instagram'' ''s1'' 3))
        ''viral_images/instagram/instagram_viral_3_17.png'' = None"
proof -
  let ?resp = "\<lparr>status_code = 200, header_content_type = Some ''image/png'',
            content = Blob 3000 (Some ((100 :: int, 100 :: int), ''PNG''))\<rparr>"
  have h1: "http_get small_image_env ''https://scontent.example/p.png'' = Inr ?resp"
    by (simp add: small_image_env_def)
  have h2: "status_code ?resp = 200" by simp
  have h3: "pil (content ?resp) = None
         \<or> (\<exists>w h fmt. pil (content ?resp) = Some ((w, h), fmt) \<and> (w < 200 \<or> h < 200))"
    by simp
  have p: "response_local_path small_image_env ''viral_images'' ?resp ''instagram'' 3
       = ''viral_images/instagram/instagram_viral_3_17.png''"
    by code_simp
  have w: "writable empty_fs ''viral_images/instagram/instagram_viral_3_17.png''"
    by (simp add: empty_fs_def)
  from download_image_rejects [OF h1 h2 h3, of "''viral_images''" empty_fs "''instagram''" "''s1''" 3]
  show ?thesis
    unfolding p using h1 p w by simp
qed

text \<open>The path the downloader returns holds an image of at least 200 by 200 pixels,
  which is what \<^verbatim>\<open>_get_image_info\<close> then reads for the record.\<close>

lemma download_image_accepts_large:
  assumes "download_image env images_dir fs img_url category session_id index = (Some p, fs')"
  shows "fst (info_size (get_image_info fs' p)) \<ge> 200 \<and> snd (info_size (get_image_info fs' p)) \<ge> 200"
  using assms
  by (auto simp: download_image_def Let_def write_file_def image_open_def os_remove_def
        get_image_info_def split: sum.splits option.splits if_splits prod.splits)

subsection \<open>Ranking\<close>

lemma sort_by_virality_score_sorted:
  "sorted_wrt (\<lambda>a b. virality_score a \<ge> virality_score b) (sort_by_virality_score all_images)"
proof -
  have "sorted (map virality_score (sort_key virality_score (rev all_images)))"
    by (rule sorted_sort_key)
  then have "sorted_wrt (\<lambda>a b. virality_score a \<le> virality_score b)
               (sort_key virality_score (rev all_images))"
    by (simp add: sorted_map)
  then show ?thesis
    by (simp add: sort_by_virality_score_def sorted_wrt_rev)
qed

lemma sort_by_virality_score_mset:
  "mset (sort_by_virality_score all_images) = mset all_images"
  by (simp add: sort_by_virality_score_def)

lemma sort_by_virality_score_stable:
  "filter (\<lambda>x. virality_score x = k) (sort_by_virality_score all_images)
     = filter (\<lambda>x. virality_score x = k) all_images"
proof -
  have "filter (\<lambda>x. virality_score x = k) (sort_key virality_score (rev all_images))
          = filter (\<lambda>x. virality_score x = k) (rev all_images)"
    by (rule sort_key_stable)
  then show ?thesis
    by (simp add: sort_by_virality_score_def rev_filter [symmetric])
qed

text \<open>
  Claim C4. The ranking step sorts the working set in descending order of virality
  score, keeps exactly the records it was given, and is stable: the records of any one
  score appear in their original order. Scores 10, 90, 90, 30 give 90, 90, 30, 10 with
  the two records of score 90 in their original order.
\<close>

theorem ranking_descending_stable:
  "sorted_wrt (\<lambda>a b. virality_score a \<ge> virality_score b) (sort_by_virality_score all_images)
   \<and> mset (sort_by_virality_score all_images) = mset all_images
   \<and> (\<forall>k. filter (\<lambda>x. virality_score x = k) (sort_by_virality_score all_images)
            = filter (\<lambda>x. virality_score x = k) all_images)
   \<and> sort_by_virality_score
        [sample_image ''a'' 10, sample_image ''b'' 90, sample_image ''c'' 90, sample_image ''d'' 30]
       = [sample_image ''b'' 90, sample_image ''c'' 90, sample_image ''d'' 30, sample_image ''a'' 10]"
proof -
  have ex: "sort_by_virality_score
        [sample_image ''a'' 10, sample_image ''b'' 90, sample_image ''c'' 90, sample_image ''d'' 30]
       = [sample_image ''b'' 90, sample_image ''c'' 90, sample_image ''d'' 30, sample_image ''a'' 10]"
    by (simp add: sort_by_virality_score_def sample_image_def)
  show ?thesis
    using sort_by_virality_score_sorted sort_by_virality_score_mset
      sort_by_virality_score_stable ex
    by blast
qed

subsection \<open>Truncation\<close>

lemma length_truncate_to_target:
  "length (truncate_to_target new_extractor xs) = min 20 (length xs)"
  by (simp add: truncate_to_target_def new_extractor_def)

lemma truncate_to_target_take:
  "truncate_to_target new_extractor xs = take 20 xs"
  by (simp add: truncate_to_target_def new_extractor_def)

lemma sorted_wrt_take_drop:
  "sorted_wrt P xs \<Longrightarrow> a \<in> set (take n xs) \<Longrightarrow> b \<in> set (drop n xs) \<Longrightarrow> P a b"
  by (metis append_take_drop_id sorted_wrt_append)

lemma extract_viral_images_final:
  "fst (extract_viral_images cs self query session_id w)
     = truncate_to_target self (sort_by_virality_score (fst (collect_all_images cs self query session_id w)))"
  by (simp add: extract_viral_images_def Let_def split: prod.split)

lemma extract_viral_images_self:
  "fst (snd (extract_viral_images cs self query session_id w))
     = self\<lparr>extracted_images := fst (extract_viral_images cs self query session_id w)\<rparr>"
  by (simp add: extract_viral_images_def Let_def split: prod.split)

text \<open>
  Claim C5. After ranking, the orchestrator returns the first 20 records of the ranked
  working set: never more than 20, exactly 20 when at least 20 were collected, and then
  no record left out has a higher score than a record kept; with fewer than 20 collected
  all of them are returned, and the summary reports success exactly when at least 20
  were collected (otherwise its status is partial or no_images).
\<close>

theorem truncation_keeps_top_target:
  fixes cs :: "'w collectors" and query session_id :: string and w :: 'w
  defines "all_images \<equiv> fst (collect_all_images cs new_extractor query session_id w)"
    and "final_images \<equiv> fst (extract_viral_images cs new_extractor query session_id w)"
    and "self' \<equiv> fst (snd (extract_viral_images cs new_extractor query session_id w))"
  shows "final_images = take 20 (sort_by_virality_score all_images)
   \<and> length final_images = min 20 (length all_images)
   \<and> (\<forall>a \<in> set final_images. \<forall>b \<in> set (drop 20 (sort_by_virality_score all_images)).
         virality_score b \<le> virality_score a)
   \<and> (length all_images < 20 \<longrightarrow> mset final_images = mset all_images)
   \<and> extracted_images self' = final_images
   \<and> (summary_status (get_extracted_images_summary self') = ''success'' \<longleftrightarrow> 20 \<le> length all_images)"
proof -
  have f: "final_images = take 20 (sort_by_virality_score all_images)"
    unfolding final_images_def all_images_def
    by (simp add: extract_viral_images_final truncate_to_target_take)
  have len_sorted: "length (sort_by_virality_score all_images) = length all_images"
    using sort_by_virality_score_mset [of all_images] by (metis size_mset)
  have l: "length final_images = min 20 (length all_images)"
    using f len_sorted by simp
  have top: "\<forall>a \<in> set final_images. \<forall>b \<in> set (drop 20 (sort_by_virality_score all_images)).
         virality_score b \<le> virality_score a"
    using sorted_wrt_take_drop [OF sort_by_virality_score_sorted [of all_images], of _ 20] f
    by blast
  have small: "length all_images < 20 \<longrightarrow> mset final_images = mset all_images"
    using f len_sorted sort_by_virality_score_mset [of all_images] by simp
  have s: "self' = new_extractor\<lparr>extracted_images := final_images\<rparr>"
    unfolding self'_def final_images_def by (rule extract_viral_images_self)
  have st: "summary_status (get_extracted_images_summary self') = ''success'' \<longleftrightarrow> 20 \<le> length all_images"
    using s l by (auto simp: get_extracted_images_summary_def new_extractor_def)
  from f l top small s st show ?thesis by simp
qed

lemma surplus_collected:
  "fst (collect_all_images surplus_collectors new_extractor ''q'' ''s'' [])
   = replicate 8 (sample_image ''i'' 10) @ replicate 6 (sample_image ''f'' 90)
     @ replicate 5 (sample_image ''y'' 30) @ replicate 4 (sample_image ''n'' 50)
     @ replicate 2 (sample_image ''c'' 70)"
  by (simp add: collect_all_images_def surplus_collectors_def canned_collectors_def
        extract_additional_viral_content_def new_extractor_def)

lemma surplus_sorted:
  "sort_by_virality_score
     (replicate 8 (sample_image ''i'' 10) @ replicate 6 (sample_image ''f'' 90)
     @ replicate 5 (sample_image ''y'' 30) @ replicate 4 (sample_image ''n'' 50)
     @ replicate 2 (sample_image ''c'' 70))
   = replicate 6 (sample_image ''f'' 90) @ replicate 2 (sample_image ''c'' 70)
     @ replicate 4 (sample_image ''n'' 50) @ replicate 5 (sample_image ''y'' 30)
     @ replicate 8 (sample_image ''i'' 10)"
  by (simp add: sort_by_virality_score_def sample_image_def eval_nat_numeral)

lemma scarce_collected:
  "fst (collect_all_images scarce_collectors new_extractor ''q'' ''s'' [])
   = [sample_image ''a'' 10, sample_image ''b'' 90]"
  by (simp add: collect_all_images_def scarce_collectors_def canned_collectors_def
        extract_additional_viral_content_def new_extractor_def)

lemma scarce_sorted:
  "sort_by_virality_score [sample_image ''a'' 10, sample_image ''b'' 90]
   = [sample_image ''b'' 90, sample_image ''a'' 10]"
  by (simp add: sort_by_virality_score_def sample_image_def)

theorem truncation_keeps_top_target_witness:
  "length (fst (collect_all_images surplus_collectors new_extractor ''q'' ''s'' [])) = 25
   \<and> fst (extract_viral_images surplus_collectors new_extractor ''q'' ''s'' [])
       = replicate 6 (sample_image ''f'' 90) @ replicate 2 (sample_image ''c'' 70)
         @ replicate 4 (sample_image ''n'' 50) @ replicate 5 (sample_image ''y'' 30)
         @ replicate 3 (sample_image ''i'' 10)
   \<and> summary_status (get_extracted_images_summary
        (fst (snd (extract_viral_images surplus_collectors new_extractor ''q'' ''s'' [])))) = ''success''
   \<and> length (fst (collect_all_images scarce_collectors new_extractor ''q'' ''s'' [])) < 20
   \<and> fst (extract_viral_images scarce_collectors new_extractor ''q'' ''s'' [])
       = [sample_image ''b'' 90, sample_image ''a'' 10]
   \<and> mset (fst (extract_viral_images scarce_collectors new_extractor ''q'' ''s'' []))
       = mset (fst (collect_all_images scarce_collectors new_extractor ''q'' ''s'' []))
   \<and> summary_status (get_extracted_images_summary
        (fst (snd (extract_viral_images scarce_collectors new_extractor ''q'' ''s'' [])))) \<noteq> ''success''"
proof -
  note big = truncation_keeps_top_target [of surplus_collectors "''q''" "''s''" "[]"]
  note small = truncation_keeps_top_target [of scarce_collectors "''q''" "''s''" "[]"]
  have l25: "length (fst (collect_all_images surplus_collectors new_extractor ''q'' ''s'' [])) = 25"
    by (simp add: surplus_collected)
  have f25: "fst (extract_viral_images surplus_collectors new_extractor ''q'' ''s'' [])
       = replicate 6 (sample_image ''f'' 90) @ replicate 2 (sample_image ''c'' 70)
         @ replicate 4 (sample_image ''n'' 50) @ replicate 5 (sample_image ''y'' 30)
         @ replicate 3 (sample_image ''i'' 10)"
    using big [THEN conjunct1] by (simp add: surplus_collected surplus_sorted)
  have s25: "summary_status (get_extracted_images_summary
        (fst (snd (extract_viral_images surplus_collectors new_extractor ''q'' ''s'' [])))) = ''success''"
    using big l25 by simp
  have l2: "length (fst (collect_all_images scarce_collectors new_extractor ''q'' ''s'' [])) < 20"
    by (simp add: scarce_collected)
  have f2: "fst (extract_viral_images scarce_collectors new_extractor ''q'' ''s'' [])
       = [sample_image ''b'' 90, sample_image ''a'' 10]"
    using small [THEN conjunct1] by (simp add: scarce_collected scarce_sorted)
  have m2: "mset (fst (extract_viral_images scarce_collectors new_extractor ''q'' ''s'' []))
       = mset (fst (collect_all_images scarce_collectors new_extractor ''q'' ''s'' []))"
    using small l2 by blast
  have s2: "summary_status (get_extracted_images_summary
        (fst (snd (extract_viral_images scarce_collectors new_extractor ''q'' ''s'' [])))) \<noteq> ''success''"
    using small l2 by simp
  from l25 f25 s25 l2 f2 m2 s2 show ?thesis by blast
qed

subsection \<open>Fallback gate\<close>

text \<open>
  Claim C6. The fallback stage runs if and only if the three primary sources together
  delivered fewer than 20 records. When it runs, the news collector is called with
  quota 8 and then the commercial collector with quota 6, and what they return is
  appended to the working set; otherwise the working set is that of the primary sources
  and neither collector is called. The second part reads the calls off collectors that
  log them.
\<close>

theorem fallback_gate:
  fixes cs :: "'w collectors"
  shows "collect_all_images cs new_extractor query session_id w =
     (case instagram_collector cs query session_id w of (i, w1) \<Rightarrow>
      case facebook_collector cs query session_id w1 of (f, w2) \<Rightarrow>
      case youtube_collector cs query session_id w2 of (y, w3) \<Rightarrow>
        if length (i @ f @ y) < 20
        then (case news_collector cs query session_id 8 w3 of (n, w4) \<Rightarrow>
              case commercial_collector cs query session_id 6 w4 of (c, w5) \<Rightarrow>
                (i @ f @ y @ n @ c, w5))
        else (i @ f @ y, w3))
   \<and> collect_all_images (canned_collectors i f y n c) new_extractor query session_id [] =
       (if length (i @ f @ y) < 20
        then (i @ f @ y @ n @ c,
              [ExtractInstagram, ExtractFacebook, ExtractYoutube, ExtractNews 8, ExtractCommercial 6])
        else (i @ f @ y, [ExtractInstagram, ExtractFacebook, ExtractYoutube]))"
proof -
  have a: "collect_all_images cs new_extractor query session_id w =
     (case instagram_collector cs query session_id w of (i, w1) \<Rightarrow>
      case facebook_collector cs query session_id w1 of (f, w2) \<Rightarrow>
      case youtube_collector cs query session_id w2 of (y, w3) \<Rightarrow>
        if length (i @ f @ y) < 20
        then (case news_collector cs query session_id 8 w3 of (n, w4) \<Rightarrow>
              case commercial_collector cs query session_id 6 w4 of (c, w5) \<Rightarrow>
                (i @ f @ y @ n @ c, w5))
        else (i @ f @ y, w3))"
    by (simp add: collect_all_images_def extract_additional_viral_content_def new_extractor_def
          Let_def split: prod.split)
  have b: "collect_all_images (canned_collectors i f y n c) new_extractor query session_id [] =
       (if length (i @ f @ y) < 20
        then (i @ f @ y @ n @ c,
              [ExtractInstagram, ExtractFacebook, ExtractYoutube, ExtractNews 8, ExtractCommercial 6])
        else (i @ f @ y, [ExtractInstagram, ExtractFacebook, ExtractYoutube]))"
    by (simp add: collect_all_images_def extract_additional_viral_content_def new_extractor_def
          canned_collectors_def Let_def)
  from a b show ?thesis by (rule conjI)
qed

theorem fallback_gate_witness:
  "snd (collect_all_images surplus_collectors new_extractor ''q'' ''s'' [])
     = [ExtractInstagram, ExtractFacebook, ExtractYoutube, ExtractNews 8, ExtractCommercial 6]
   \<and> length (fst (collect_all_images surplus_collectors new_extractor ''q'' ''s'' [])) = 25
   \<and> snd (collect_all_images full_primary_collectors new_extractor ''q'' ''s'' [])
     = [ExtractInstagram, ExtractFacebook, ExtractYoutube]
   \<and> length (fst (collect_all_images full_primary_collectors new_extractor ''q'' ''s'' [])) = 20"
  using fallback_gate [THEN conjunct2, of "replicate 8 (sample_image ''i'' 10)"
      "replicate 6 (sample_image ''f'' 90)" "replicate 5 (sample_image ''y'' 30)"
      "replicate 4 (sample_image ''n'' 50)" "replicate 2 (sample_image ''c'' 70)" "''q''" "''s''"]
    fallback_gate [THEN conjunct2, of "replicate 8 (sample_image ''i'' 10)"
      "replicate 6 (sample_image ''f'' 90)" "replicate 6 (sample_image ''y'' 30)"
      "[sample_image ''n'' 50]" "[sample_image ''c'' 70]" "''q''" "''s''"]
  by (simp add: surplus_collectors_def full_primary_collectors_def)

subsection \<open>Size floor on the YouTube path\<close>

text \<open>
  Claim C3 at a failing input. A video whose only thumbnail answered with status 200 is
  the medium-quality one of 320 by 180 pixels: the session returns a record whose height
  180 is below the floor of 200. The thumbnail path stores the body and builds the
  record without the size test that \<open>download_image\<close> applies on the other paths.
\<close>

theorem youtube_thumbnail_below_floor:
  "map image_size
     (fst (extract_viral_images (youtube_only_collectors mq_only_env) new_extractor
             ''demo'' ''s1'' empty_fs))
   = [(320, 180)]"
  by (simp add: extract_viral_images_def collect_all_images_def youtube_only_collectors_def
        extract_additional_viral_content_def new_extractor_def extract_youtube_thumbnails_def
        download_youtube_thumbnail_def thumbnail_urls_def sample_video_def mq_only_env_def
        empty_fs_def write_file_def get_image_info_def image_open_def Let_def
        sort_by_virality_score_def truncate_to_target_def)

subsection \<open>Scorer: sample values\<close>

text \<open>Counts of \<open>10^9\<close> saturate the compression at 100; a negative count makes the
  body raise, which yields the default 50; small counts give a weighted mean of square
  roots, renormalised by the weight applied (here 0.3 and 0.4 of the instagram table).\<close>

lemma normalized_value_huge: "normalized_value 1000000000 = Inr 100"
proof -
  have "(100::real) \<le> sqrt 10000000"
    by (rule real_le_rsqrt) simp
  moreover have "\<not> (2 ^ 1024 - 2 ^ 970 \<le> \<bar>real_of_int 1000000000 / 100\<bar>)"
    by simp
  ultimately show ?thesis
    by (simp add: normalized_value_def)
qed

lemma virality_score_examples:
  "calculate_image_virality_score
     (map_of [(''likes'', 1000000000), (''comments'', 1000000000), (''shares'', 1000000000)])
     ''instagram'' = 100"
  "calculate_image_virality_score (map_of [(''likes'', - 5)]) ''instagram'' = 50"
  "calculate_image_virality_score (map_of [(''likes'', 10000), (''comments'', 400)]) ''instagram''
     = 38 / 7"
proof -
  show "calculate_image_virality_score
     (map_of [(''likes'', 1000000000), (''comments'', 1000000000), (''shares'', 1000000000)])
     ''instagram'' = 100"
    by (simp add: calculate_image_virality_score_def score_try_def platform_weights_def weights_def
          normalized_value_huge)
  have neg: "normalized_value (- 5) = Inl TypeError"
    by (simp add: normalized_value_def)
  show "calculate_image_virality_score (map_of [(''likes'', - 5)]) ''instagram'' = 50"
    by (simp add: calculate_image_virality_score_def score_try_def platform_weights_def weights_def neg)
  have a: "normalized_value 10000 = Inr 10"
    using real_sqrt_abs [of 10] by (simp add: normalized_value_def)
  have b: "normalized_value 400 = Inr 2"
    using real_sqrt_abs [of 2] by (simp add: normalized_value_def)
  show "calculate_image_virality_score (map_of [(''likes'', 10000), (''comments'', 400)]) ''instagram''
     = 38 / 7"
    by (simp add: calculate_image_virality_score_def score_try_def platform_weights_def weights_def a b)
qed

end
